theory Spec2Isabelle
  imports Complex_Main
begin

section \<open>Numbers and Python primitives\<close>

text \<open>
  The Python sources compute with floats and unbounded ints.  Floats are modelled as
  exact reals (no rounding, no NaN, no infinities); ints are \<^typ>\<open>int\<close>.
\<close>

text \<open>Python's \<^verbatim>\<open>int(x)\<close> on a float truncates towards zero.\<close>

definition py_int :: "real \<Rightarrow> int" where
  "py_int x = (if 0 \<le> x then \<lfloor>x\<rfloor> else \<lceil>x\<rceil>)"

text \<open>\<^verbatim>\<open>d.get(key, default)\<close> for a key that may be absent.\<close>

definition dict_get :: "'a option \<Rightarrow> 'a \<Rightarrow> 'a" where
  "dict_get v dflt = (case v of None \<Rightarrow> dflt | Some x \<Rightarrow> x)"

text \<open>
  Truthiness of an optional int: \<^verbatim>\<open>None\<close> and \<^verbatim>\<open>0\<close> are both false, so
  \<^verbatim>\<open>x and x <= b\<close> and \<^verbatim>\<open>x and x > b\<close> hold only for a non-zero number.
\<close>

definition and_le :: "int option \<Rightarrow> int \<Rightarrow> bool" where
  "and_le d b = (case d of None \<Rightarrow> False | Some n \<Rightarrow> n \<noteq> 0 \<and> n \<le> b)"

definition and_gt :: "int option \<Rightarrow> int \<Rightarrow> bool" where
  "and_gt d b = (case d of None \<Rightarrow> False | Some n \<Rightarrow> n \<noteq> 0 \<and> n > b)"

section \<open>Data model\<close>

type_synonym series = "real list"

text \<open>An ARIMA order \<open>(p, d, q)\<close>.\<close>

type_synonym order = "int \<times> int \<times> int"

text \<open>
  The dict returned by \<^verbatim>\<open>forecast_product_sales\<close>.  The three statistics are read by
  \<^verbatim>\<open>calculate_restock_suggestion\<close> with \<^verbatim>\<open>.get\<close> and a default, so they are optional
  here; \<^verbatim>\<open>params\<close> and \<^verbatim>\<open>forecast_std\<close> are present in the ARIMA tier only.  The key
  \<^verbatim>\<open>'method'\<close> is the field \<open>forecast_method\<close>.
\<close>

record forecast_result =
  forecast_demand :: "real list"
  forecast_method :: string
  params :: "order option"
  avg_daily_demand :: "real option"
  max_daily_demand :: "real option"
  forecast_std :: "real option"
  confidence_score :: int

text \<open>The dict returned by \<^verbatim>\<open>calculate_restock_suggestion\<close>.\<close>

record restock_suggestion =
  suggested_quantity :: int
  days_until_stockout :: "int option"
  daily_demand :: real
  restock_max_daily_demand :: real
  reorder_point :: int
  safety_stock :: int
  optimal_stock :: int
  max_reasonable_stock :: int
  current_stock :: int
  overstocking_risk :: string
  understocking_risk :: string

section \<open>The restock planner (predict\_product\_arima.calculate\_restock\_suggestion)\<close>

text \<open>
  \<^verbatim>\<open>days_until_depletion = None
  if avg_daily_demand > 0:
      days_until_depletion = int(np.ceil(current_stock / avg_daily_demand)) if current_stock > 0 else 0\<close>
\<close>

definition days_until_depletion :: "real \<Rightarrow> int \<Rightarrow> int option" where
  "days_until_depletion avg cs =
     (if avg > 0 then Some (if cs > 0 then \<lceil>of_int cs / avg\<rceil> else 0) else None)"

text \<open>
  \<^verbatim>\<open>if forecast_std > 0:
      variability_buffer = min(forecast_std * 1.5, avg_daily_demand * 0.3)
  else:
      variability_buffer = avg_daily_demand * 0.2\<close>
\<close>

definition variability_buffer :: "real \<Rightarrow> real \<Rightarrow> real" where
  "variability_buffer avg std =
     (if std > 0 then min (std * 1.5) (avg * 0.3) else avg * 0.2)"

text \<open>
  \<^verbatim>\<open>total_days = lead_time_days + safety_days
  base_required_stock = avg_daily_demand * total_days
  required_stock = base_required_stock + (variability_buffer * total_days)\<close>
\<close>

definition required_stock :: "real \<Rightarrow> real \<Rightarrow> int \<Rightarrow> int \<Rightarrow> real" where
  "required_stock avg std lead_time_days safety_days =
     (let total_days = lead_time_days + safety_days;
          base_required_stock = avg * of_int total_days
      in base_required_stock + variability_buffer avg std * of_int total_days)"

text \<open>
  \<^verbatim>\<open>max_reasonable_stock = max_daily_demand * (total_days + 60)
  max_reasonable_stock = max(max_reasonable_stock, reorder_level * 5)\<close>
\<close>

definition max_reasonable :: "real \<Rightarrow> int \<Rightarrow> int \<Rightarrow> int \<Rightarrow> real" where
  "max_reasonable maxd reorder_level lead_time_days safety_days =
     max (maxd * of_int (lead_time_days + safety_days + 60)) (of_int (reorder_level * 5))"

text \<open>
  The suggested quantity: the shortfall, clamped against the overstock ceiling, floored
  at the reorder level, then replaced by the depletion override when the stock already
  covers the requirement.
\<close>

definition suggested :: "real \<Rightarrow> real \<Rightarrow> real \<Rightarrow> int \<Rightarrow> int \<Rightarrow> int \<Rightarrow> int \<Rightarrow> int" where
  "suggested avg maxd std cs reorder_level lead_time_days safety_days =
     (let dud = days_until_depletion avg cs;
          req = required_stock avg std lead_time_days safety_days;
          mrs = max_reasonable maxd reorder_level lead_time_days safety_days;
          s0 = max 0 \<lceil>req - of_int cs\<rceil>;
          max_restock = mrs - of_int cs;
          s1 = (if of_int s0 > max_restock then max 0 (py_int max_restock) else s0);
          s2 = (if s1 < reorder_level then reorder_level else s1)
      in if of_int cs \<ge> req
         then (if and_le dud (lead_time_days + 3)
               then max reorder_level \<lceil>avg * of_int (lead_time_days + 3)\<rceil>
               else 0)
         else s2)"

text \<open>
  \<^verbatim>\<open>'low' if days_until_depletion and days_until_depletion > (lead_time_days + safety_days)
  else 'high' if days_until_depletion and days_until_depletion <= lead_time_days else 'medium'\<close>
\<close>

definition understocking_label :: "int option \<Rightarrow> int \<Rightarrow> int \<Rightarrow> string" where
  "understocking_label dud lead_time_days safety_days =
     (if and_gt dud (lead_time_days + safety_days) then ''low''
      else if and_le dud lead_time_days then ''high''
      else ''medium'')"

text \<open>
  The whole function.  \<^verbatim>\<open>if not forecast_result: return None\<close> is the \<open>None\<close> case
  (an empty dict is not a value of the record type).  The defaults 7 and 14 of
  \<^verbatim>\<open>lead_time_days\<close> and \<^verbatim>\<open>safety_days\<close> are supplied by the caller.
\<close>

definition calculate_restock_suggestion ::
  "forecast_result option \<Rightarrow> int \<Rightarrow> int \<Rightarrow> int \<Rightarrow> int \<Rightarrow> restock_suggestion option" where
  "calculate_restock_suggestion forecast_result cs reorder_level lead_time_days safety_days =
     (case forecast_result of
        None \<Rightarrow> None
      | Some fr \<Rightarrow>
          (let avg = dict_get (avg_daily_demand fr) 0;
               maxd = dict_get (max_daily_demand fr) avg;
               std = dict_get (forecast_std fr) 0;
               dud = days_until_depletion avg cs;
               mrs = max_reasonable maxd reorder_level lead_time_days safety_days;
               suggested_quantity = suggested avg maxd std cs reorder_level lead_time_days safety_days;
               optimal = cs + suggested_quantity
           in Some \<lparr>suggested_quantity = suggested_quantity,
                    days_until_stockout = dud,
                    daily_demand = avg,
                    restock_max_daily_demand = maxd,
                    reorder_point = \<lceil>avg * of_int (lead_time_days + safety_days)\<rceil>,
                    safety_stock = \<lceil>avg * of_int safety_days\<rceil>,
                    optimal_stock = optimal,
                    max_reasonable_stock = py_int mrs,
                    current_stock = cs,
                    overstocking_risk = (if of_int optimal \<le> mrs then ''low'' else ''medium''),
                    understocking_risk = understocking_label dud lead_time_days safety_days\<rparr>))"

section \<open>The external numerical library\<close>

text \<open>
  \<^verbatim>\<open>statsmodels\<close> is not part of the repository.  Its two entry points are parameters
  of the model: \<open>adf ts\<close> is the p-value \<^verbatim>\<open>adfuller(ts)[1]\<close>, or \<open>None\<close> when the call
  raises; \<open>fit ts (p, d, q)\<close> is \<^verbatim>\<open>ARIMA(ts, order=(p, d, q)).fit()\<close>, or \<open>None\<close> when
  construction or fitting raises.  A fitted model carries its AIC (a finite number here)
  and its forecast method, which may raise as well.
\<close>

record fitted_model =
  aic :: real
  model_forecast :: "nat \<Rightarrow> real list option"

type_synonym adfuller = "series \<Rightarrow> real option"
type_synonym arima_fit = "series \<Rightarrow> order \<Rightarrow> fitted_model option"

text \<open>\<^verbatim>\<open>range(n)\<close>, empty for \<open>n \<le> 0\<close>.\<close>

definition py_range :: "int \<Rightarrow> int list" where
  "py_range n = [0..n - 1]"

text \<open>\<^verbatim>\<open>Series.mean()\<close> and \<^verbatim>\<open>np.mean\<close>; every use below is on a non-empty sequence
  except \<^verbatim>\<open>np.mean\<close> of an empty forecast, where numpy gives NaN and the model gives 0.\<close>

definition mean :: "real list \<Rightarrow> real" where
  "mean xs = sum_list xs / of_nat (length xs)"

text \<open>\<^verbatim>\<open>np.std\<close>: the population standard deviation.\<close>

definition np_std :: "real list \<Rightarrow> real" where
  "np_std xs = sqrt (mean (map (\<lambda>x. (x - mean xs)\<^sup>2) xs))"

text \<open>\<^verbatim>\<open>Series.tail(k)\<close>: the last \<open>k\<close> entries.\<close>

definition tail :: "nat \<Rightarrow> 'a list \<Rightarrow> 'a list" where
  "tail k xs = drop (length xs - k) xs"

section \<open>Stationarity and differencing\<close>

text \<open>
  \<^verbatim>\<open>try: result = adfuller(timeseries.dropna()); return result[1] <= 0.05
  except: return False\<close>
  (a series here has no undefined entries, so \<^verbatim>\<open>dropna\<close> is the identity).
\<close>

definition test_stationarity :: "adfuller \<Rightarrow> series \<Rightarrow> bool" where
  "test_stationarity adf timeseries =
     (case adf timeseries of None \<Rightarrow> False | Some pvalue \<Rightarrow> pvalue \<le> 0.05)"

text \<open>\<^verbatim>\<open>ts.diff().dropna()\<close>: each value minus its predecessor, the first entry dropped.\<close>

fun diff_series :: "series \<Rightarrow> series" where
  "diff_series (x # y # xs) = (y - x) # diff_series (y # xs)"
| "diff_series _ = []"

text \<open>
  \<^verbatim>\<open>diff = ts.diff().dropna()
  if len(diff) > 0 and not diff.isna().all(): return diff
  return ts\<close>
  (after \<^verbatim>\<open>dropna\<close> a non-empty \<^verbatim>\<open>diff\<close> has no undefined entry, so the second
  conjunct is true whenever the first is).
\<close>

definition make_stationary :: "series \<Rightarrow> series" where
  "make_stationary ts = (let diff = diff_series ts in if length diff > 0 then diff else ts)"

section \<open>The model selector (predict\_product\_arima.fit\_arima\_model)\<close>

text \<open>Lines 42--50: the series that is fitted and the differencing order.\<close>

definition differencing_decision :: "adfuller \<Rightarrow> series \<Rightarrow> series \<times> int" where
  "differencing_decision adf ts =
     (if \<not> test_stationarity adf ts
      then (let ts_diff = make_stationary ts
            in if length ts_diff \<ge> 3 then (ts_diff, 1) else (ts, 0))
      else (ts, 0))"

text \<open>Lines 57--72: the candidate orders, for a (possibly differenced) series of \<open>n\<close> points.\<close>

definition param_combinations :: "nat \<Rightarrow> int \<Rightarrow> int \<Rightarrow> int \<Rightarrow> order list" where
  "param_combinations n d max_p max_q =
     (if n < 12
      then [(0, d, 0), (1, d, 0), (0, d, 1), (1, d, 1), (2, d, 0), (0, d, 2)]
      else concat (map (\<lambda>p. map (\<lambda>q. (p, d, q)) (py_range (min (max_q + 1) 3)))
                       (py_range (min (max_p + 1) 3))))"

text \<open>
  Lines 75--84, one iteration of the loop.  The state is
  \<open>(best_aic, best_model, best_params)\<close>; \<open>best_aic = None\<close> stands for \<^verbatim>\<open>np.inf\<close>,
  below which every AIC lies.
\<close>

type_synonym search_state = "real option \<times> fitted_model option \<times> order option"

definition try_candidate :: "arima_fit \<Rightarrow> series \<Rightarrow> search_state \<Rightarrow> order \<Rightarrow> search_state" where
  "try_candidate fit ts st cand =
     (case st of (best_aic, best_model, best_params) \<Rightarrow>
        (case fit ts cand of
           None \<Rightarrow> st
         | Some fitted \<Rightarrow>
             if (case best_aic of None \<Rightarrow> True | Some b \<Rightarrow> aic fitted < b)
             then (Some (aic fitted), Some fitted, Some cand)
             else st))"

definition arima_search :: "arima_fit \<Rightarrow> series \<Rightarrow> order list \<Rightarrow> search_state" where
  "arima_search fit ts cands = foldl (try_candidate fit ts) (None, None, None) cands"

text \<open>The function returns \<open>(best_model, best_params, original_ts)\<close>;
  \<^verbatim>\<open>max_d\<close> is accepted and never read.\<close>

definition fit_arima_model ::
  "adfuller \<Rightarrow> arima_fit \<Rightarrow> series \<Rightarrow> int \<Rightarrow> int \<Rightarrow> int
     \<Rightarrow> fitted_model option \<times> order option \<times> series option" where
  "fit_arima_model adf fit ts max_p max_d max_q =
     (if length ts < 6 then (None, None, None)
      else (case differencing_decision adf ts of (ts1, d) \<Rightarrow>
              (case arima_search fit ts1 (param_combinations (length ts1) d max_p max_q) of
                 (best_aic, best_model, best_params) \<Rightarrow> (best_model, best_params, Some ts))))"

section \<open>The batch model selector (arima\_restock\_prediction.fit\_arima\_model)\<close>

definition param_grid :: "int \<Rightarrow> int \<Rightarrow> int \<Rightarrow> order list" where
  "param_grid d max_p max_q =
     concat (map (\<lambda>p. map (\<lambda>q. (p, d, q)) (py_range (max_q + 1))) (py_range (max_p + 1)))"

definition fit_arima_model_batch ::
  "adfuller \<Rightarrow> arima_fit \<Rightarrow> series \<Rightarrow> int \<Rightarrow> int \<Rightarrow> int \<Rightarrow> fitted_model option \<times> order option" where
  "fit_arima_model_batch adf fit ts max_p max_d max_q =
     (if length ts < 12 then (None, None)
      else (case (if \<not> test_stationarity adf ts then (make_stationary ts, 1) else (ts, 0)) of
              (ts1, d) \<Rightarrow>
                (case arima_search fit ts1 (param_grid d max_p max_q) of
                   (best_aic, best_model, best_params) \<Rightarrow> (best_model, best_params))))"

section \<open>The monthly forecaster (arima\_restock\_prediction.forecast\_product)\<close>

record monthly_forecast =
  forecast :: "real list"
  monthly_method :: string
  monthly_params :: "order option"
  model_aic :: "real option"
  forecast_error :: bool

definition forecast_product ::
  "adfuller \<Rightarrow> arima_fit \<Rightarrow> series \<Rightarrow> nat \<Rightarrow> monthly_forecast option" where
  "forecast_product adf fit monthly_sales months_ahead =
     (if length monthly_sales < 6 then None
      else (case fit_arima_model_batch adf fit monthly_sales 3 2 3 of
              (None, _) \<Rightarrow>
                Some \<lparr>forecast = replicate months_ahead (mean monthly_sales),
                      monthly_method = ''moving_average'', monthly_params = None,
                      model_aic = None, forecast_error = False\<rparr>
            | (Some model, best_params) \<Rightarrow>
                (case model_forecast model months_ahead of
                   None \<Rightarrow>
                     Some \<lparr>forecast = replicate months_ahead (mean monthly_sales),
                           monthly_method = ''average'', monthly_params = None,
                           model_aic = None, forecast_error = True\<rparr>
                 | Some fc \<Rightarrow>
                     Some \<lparr>forecast = map (max 0) fc,
                           monthly_method = ''ARIMA'', monthly_params = best_params,
                           model_aic = Some (aic model), forecast_error = False\<rparr>)))"

section \<open>The per-product forecaster (predict\_product\_arima.forecast\_product\_sales)\<close>

text \<open>
  A row of the CSV after \<^verbatim>\<open>pd.to_datetime(..., errors='coerce')\<close>: the date is a day
  number, or \<open>None\<close> where the text did not parse.
\<close>

record transaction =
  product_id :: int
  transaction_date :: "int option"
  transaction_qty :: real

text \<open>
  Lines 94--98: rows without a date are dropped, the rows of the product are kept.
  What remains is a list of (date, quantity) pairs, the raw observations.
\<close>

definition product_rows :: "int \<Rightarrow> transaction list \<Rightarrow> (int \<times> real) list" where
  "product_rows pid rows =
     List.map_filter
       (\<lambda>r. case transaction_date r of
               None \<Rightarrow> None
             | Some d \<Rightarrow> if product_id r = pid then Some (d, transaction_qty r) else None)
       rows"

text \<open>\<^verbatim>\<open>product_data.groupby('transaction_date')['transaction_qty'].sum().sort_index()\<close>\<close>

definition group_daily :: "(int \<times> real) list \<Rightarrow> (int \<times> real) list" where
  "group_daily product_data =
     map (\<lambda>d. (d, sum_list (map snd (filter (\<lambda>r. fst r = d) product_data))))
         (sort (remdups (map fst product_data)))"

text \<open>\<^verbatim>\<open>daily_sales.reindex(pd.date_range(start=lo, end=hi, freq='D'), fill_value=0)\<close>\<close>

definition reindex_daily :: "(int \<times> real) list \<Rightarrow> int \<Rightarrow> int \<Rightarrow> series" where
  "reindex_daily daily lo hi =
     map (\<lambda>d. case map_of daily d of None \<Rightarrow> 0 | Some v \<Rightarrow> v) [lo..hi]"

text \<open>
  Lines 104--118: the gap-filled daily series with \<^verbatim>\<open>total_sales\<close>, \<^verbatim>\<open>total_days\<close> and
  \<^verbatim>\<open>max_daily\<close>, computed before the gaps are filled; \<open>None\<close> when there is no day at all.
\<close>

definition daily_stats :: "(int \<times> real) list \<Rightarrow> (series \<times> real \<times> int \<times> real) option" where
  "daily_stats product_data =
     (case group_daily product_data of
        [] \<Rightarrow> None
      | (d0, v0) # rest \<Rightarrow>
          (let total_sales = sum_list (map snd ((d0, v0) # rest));
               lo = fold min (map fst rest) d0;
               hi = fold max (map fst rest) d0;
               total_days = hi - lo + 1;
               max_daily = fold max (map snd rest) v0
           in Some (reindex_daily ((d0, v0) # rest) lo hi, total_sales, total_days, max_daily)))"

text \<open>Lines 124--150: the ARIMA tier; \<open>None\<close> when no model was selected or the forecast raised.\<close>

definition arima_tier ::
  "adfuller \<Rightarrow> arima_fit \<Rightarrow> series \<Rightarrow> real \<Rightarrow> nat \<Rightarrow> forecast_result option" where
  "arima_tier adf fit daily_sales max_daily days_ahead =
     (case fit_arima_model adf fit daily_sales 3 2 3 of
        (None, _, _) \<Rightarrow> None
      | (Some model, best_params, _) \<Rightarrow>
          (case model_forecast model days_ahead of
             None \<Rightarrow> None
           | Some fc \<Rightarrow>
               (let fc0 = map (max 0) fc;
                    avg = mean fc0;
                    std = (if length fc0 > 1 then np_std fc0 else 0)
                in Some \<lparr>forecast_demand = fc0, forecast_method = ''ARIMA'', params = best_params,
                         avg_daily_demand = Some avg, max_daily_demand = Some max_daily,
                         forecast_std = Some std, confidence_score = 85\<rparr>)))"

text \<open>Lines 152--172: the weighted-average and moving-average tiers.\<close>

definition fallback_tier :: "series \<Rightarrow> real \<Rightarrow> nat \<Rightarrow> forecast_result" where
  "fallback_tier daily_sales max_daily days_ahead =
     (case (if length daily_sales \<ge> 7
            then (mean (tail (min 30 (length daily_sales)) daily_sales), ''weighted_average'', 70)
            else (mean daily_sales, ''moving_average'', 68)) of
        (avg_daily, meth, confidence) \<Rightarrow>
          \<lparr>forecast_demand = replicate days_ahead (max 0 avg_daily), forecast_method = meth, params = None,
           avg_daily_demand = Some avg_daily, max_daily_demand = Some max_daily,
           forecast_std = None, confidence_score = confidence\<rparr>)"

text \<open>Lines 174--198: the intelligent-average tier.\<close>

definition intelligent_tier :: "series \<Rightarrow> real \<Rightarrow> nat \<Rightarrow> int \<Rightarrow> real \<Rightarrow> nat \<Rightarrow> forecast_result" where
  "intelligent_tier daily_sales total_sales total_transactions total_days max_daily days_ahead =
     (let active_days = length (filter (\<lambda>v. v > 0) daily_sales);
          avg0 = (if active_days > 0 then total_sales / of_nat active_days
                  else if length daily_sales > 0 then mean daily_sales else 0);
          avg_daily =
            (if total_transactions > 0 \<and> total_days > 0
             then (let transaction_rate = of_nat total_transactions / of_int total_days;
                       avg_per_transaction =
                         (if total_transactions > 0 then total_sales / of_nat total_transactions else 0);
                       estimated_daily = transaction_rate * avg_per_transaction
                   in max avg0 estimated_daily)
             else avg0)
      in \<lparr>forecast_demand = replicate days_ahead (max 0 avg_daily), forecast_method = ''intelligent_average'',
          params = None, avg_daily_demand = Some avg_daily, max_daily_demand = Some max_daily,
          forecast_std = None, confidence_score = 65\<rparr>)"

text \<open>
  The whole function.  \<open>df\<close> is the parsed CSV, \<open>None\<close> when reading it raised; every
  exception inside the body is caught by the enclosing \<^verbatim>\<open>try\<close> and becomes \<open>None\<close>.
\<close>

definition forecast_product_sales ::
  "adfuller \<Rightarrow> arima_fit \<Rightarrow> int \<Rightarrow> transaction list option \<Rightarrow> nat \<Rightarrow> forecast_result option" where
  "forecast_product_sales adf fit pid df days_ahead =
     (case df of
        None \<Rightarrow> None
      | Some rows \<Rightarrow>
          (let product_data = product_rows pid rows
           in if length product_data < 3 then None
              else (case daily_stats product_data of
                      None \<Rightarrow> None
                    | Some (daily_sales, total_sales, total_days, max_daily) \<Rightarrow>
                        if length daily_sales \<ge> 6
                        then (case arima_tier adf fit daily_sales max_daily days_ahead of
                                Some result \<Rightarrow> Some result
                              | None \<Rightarrow> Some (fallback_tier daily_sales max_daily days_ahead))
                        else Some (intelligent_tier daily_sales total_sales (length product_data)
                                     total_days max_daily days_ahead))))"

section \<open>Specification predicate and sample inputs\<close>

text \<open>
  \<open>best_at fit ts cands i m\<close>: candidate number \<open>i\<close> of the list fits to \<open>m\<close>, no
  candidate that fits has a lower AIC, and every earlier candidate that fits has a
  strictly higher one.
\<close>

definition best_at :: "arima_fit \<Rightarrow> series \<Rightarrow> order list \<Rightarrow> nat \<Rightarrow> fitted_model \<Rightarrow> bool" where
  "best_at fit ts cands i m \<longleftrightarrow>
     i < length cands \<and> fit ts (cands ! i) = Some m \<and>
     (\<forall>j<length cands. \<forall>m'. fit ts (cands ! j) = Some m' \<longrightarrow>
        aic m \<le> aic m' \<and> (j < i \<longrightarrow> aic m < aic m'))"

text \<open>An ADF test that raises, one that reports a p-value of 0.01, and a fit that always raises.\<close>

definition no_adf :: adfuller where
  "no_adf ts = None"

definition stationary_adf :: adfuller where
  "stationary_adf ts = Some 0.01"

definition no_fit :: arima_fit where
  "no_fit ts cand = None"

definition flat_model :: "real \<Rightarrow> fitted_model" where
  "flat_model a = \<lparr>aic = a, model_forecast = (\<lambda>n. Some (replicate n 1))\<rparr>"

text \<open>A fit where \<open>(0, d, 0)\<close> raises, \<open>(1, d, 0)\<close> has AIC 7, and \<open>(0, d, 1)\<close> and
  \<open>(1, d, 1)\<close> tie at AIC 4; and one where \<open>(1, d, 0)\<close> and \<open>(0, d, 1)\<close> tie at AIC 5.\<close>

definition sample_fit :: arima_fit where
  "sample_fit ts cand =
     (case cand of (p, d, q) \<Rightarrow>
        if p = 0 \<and> q = 0 then None
        else if p = 1 \<and> q = 0 then Some (flat_model 7)
        else if p = 0 \<and> q = 1 then Some (flat_model 4)
        else if p = 1 \<and> q = 1 then Some (flat_model 4)
        else None)"

definition tie_fit :: arima_fit where
  "tie_fit ts cand =
     (case cand of (p, d, q) \<Rightarrow>
        if p = 1 \<and> q = 0 then Some (flat_model 5)
        else if p = 0 \<and> q = 1 then Some (flat_model 5)
        else None)"

definition six_days :: series where
  "six_days = [3, 1, 4, 1, 5, 9]"

definition twelve_days :: series where
  "twelve_days = [1, 2, 3, 4, 5, 6, 7, 8, 9, 10, 11, 12]"

text \<open>Four dated sales of product 1 over a week, one undated row and one row of product 2.\<close>

definition week_rows :: "transaction list" where
  "week_rows =
     [\<lparr>product_id = 1, transaction_date = Some 1, transaction_qty = 3\<rparr>,
      \<lparr>product_id = 2, transaction_date = Some 2, transaction_qty = 5\<rparr>,
      \<lparr>product_id = 1, transaction_date = Some 7, transaction_qty = 8\<rparr>,
      \<lparr>product_id = 1, transaction_date = None, transaction_qty = 6\<rparr>,
      \<lparr>product_id = 1, transaction_date = Some 3, transaction_qty = 2\<rparr>,
      \<lparr>product_id = 1, transaction_date = Some 1, transaction_qty = 1\<rparr>]"

text \<open>A week that opens with a return of seven units.\<close>

definition returns_rows :: "transaction list" where
  "returns_rows =
     [\<lparr>product_id = 1, transaction_date = Some 1, transaction_qty = - 7\<rparr>,
      \<lparr>product_id = 1, transaction_date = Some 4, transaction_qty = 0\<rparr>,
      \<lparr>product_id = 1, transaction_date = Some 7, transaction_qty = 0\<rparr>]"

definition two_rows :: "transaction list" where
  "two_rows =
     [\<lparr>product_id = 1, transaction_date = Some 1, transaction_qty = 3\<rparr>,
      \<lparr>product_id = 1, transaction_date = Some 2, transaction_qty = 5\<rparr>]"

text \<open>Ten consecutive days with a recorded quantity of zero.\<close>

definition zero_rows :: "transaction list" where
  "zero_rows =
     map (\<lambda>d. \<lparr>product_id = 1, transaction_date = Some d, transaction_qty = 0\<rparr>)
         [1, 2, 3, 4, 5, 6, 7, 8, 9, 10]"

definition zero_forecast :: forecast_result where
  "zero_forecast =
     \<lparr>forecast_demand = replicate 30 0, forecast_method = ''weighted_average'', params = None,
      avg_daily_demand = Some 0, max_daily_demand = Some 0, forecast_std = None,
      confidence_score = 70\<rparr>"

definition unit_forecast :: forecast_result where
  "unit_forecast =
     \<lparr>forecast_demand = replicate 30 1, forecast_method = ''weighted_average'', params = None,
      avg_daily_demand = Some 1, max_daily_demand = Some 1, forecast_std = None,
      confidence_score = 70\<rparr>"

definition capped_forecast :: forecast_result where
  "capped_forecast =
     \<lparr>forecast_demand = replicate 30 10, forecast_method = ''ARIMA'', params = Some (0, 0, 0),
      avg_daily_demand = Some 10, max_daily_demand = Some 1, forecast_std = Some 0,
      confidence_score = 85\<rparr>"

section \<open>Properties of the restock planner\<close>

lemma required_stock_zero: "required_stock 0 std lead_time_days safety_days = 0"
  by (simp add: required_stock_def variability_buffer_def Let_def)

lemma days_until_depletion_zero: "days_until_depletion 0 cs = None"
  by (simp add: days_until_depletion_def)

lemma suggested_zero_demand:
  "suggested 0 maxd std cs rl L S =
     (if 0 \<le> cs then 0
      else (let mrs = max_reasonable maxd rl L S;
                s1 = (if of_int (- cs) > mrs - of_int cs then max 0 (py_int (mrs - of_int cs)) else - cs)
            in max rl s1))"
  by (auto simp add: suggested_def required_stock_zero days_until_depletion_zero and_le_def
      Let_def max_def)

text \<open>
  Claim C1, as the code has it.  For a forecast with an average daily demand of 0 the
  required stock is 0, so the depletion override applies whenever the current stock is
  at least 0, not only when it is at least the reorder level; days until depletion is
  undefined, so the override sets the suggested quantity to 0.  The quantity is floored
  to the reorder level only for a negative current stock.  In particular, with a current
  stock of 0 and a reorder level of 10 the suggested quantity is 0.
\<close>

theorem zero_demand_suggestion:
  assumes "dict_get (avg_daily_demand fr) 0 = 0"
  shows "\<exists>r. calculate_restock_suggestion (Some fr) cs rl L S = Some r
           \<and> (0 \<le> cs \<longrightarrow> suggested_quantity r = 0)
           \<and> (cs < 0 \<longrightarrow> rl \<le> suggested_quantity r)"
  using assms
  by (simp add: calculate_restock_suggestion_def Let_def suggested_zero_demand)

theorem zero_demand_suggestion_witness:
  "dict_get (avg_daily_demand zero_forecast) 0 = 0 \<and> (0::int) \<le> 5
   \<and> map_option suggested_quantity (calculate_restock_suggestion (Some zero_forecast) 5 10 7 14) = Some 0
   \<and> (- 4 :: int) < 0
   \<and> map_option suggested_quantity (calculate_restock_suggestion (Some zero_forecast) (- 4) 10 7 14) = Some 10"
proof -
  have h: "dict_get (avg_daily_demand zero_forecast) 0 = 0"
    by (simp add: zero_forecast_def dict_get_def)
  from zero_demand_suggestion [OF h, of 5 10 7 14]
  have a: "map_option suggested_quantity (calculate_restock_suggestion (Some zero_forecast) 5 10 7 14) = Some 0"
    by auto
  have b: "map_option suggested_quantity (calculate_restock_suggestion (Some zero_forecast) (- 4) 10 7 14) = Some 10"
    by (simp add: calculate_restock_suggestion_def Let_def suggested_zero_demand zero_forecast_def
        dict_get_def max_reasonable_def py_int_def)
  from h a b show ?thesis by simp
qed

lemma no_fit_search: "arima_search no_fit ts cands = (None, None, None)"
  by (induction cands rule: rev_induct) (simp_all add: arima_search_def try_candidate_def no_fit_def)

lemma no_fit_model: "fst (fit_arima_model adf no_fit ts max_p max_d max_q) = None"
  by (simp add: fit_arima_model_def no_fit_search split: prod.splits)

lemma no_fit_arima_tier: "arima_tier adf no_fit ds md n = None"
  using no_fit_model [of adf ds 3 2 3]
  by (auto simp add: arima_tier_def split: prod.splits option.splits)

lemma zero_series_forecast:
  "forecast_product_sales no_adf no_fit 1 (Some zero_rows) 30 = Some zero_forecast"
  by (simp add: forecast_product_sales_def product_rows_def zero_rows_def List.map_filter_simps
      daily_stats_def group_daily_def reindex_daily_def Let_def no_fit_arima_tier fallback_tier_def
      mean_def tail_def zero_forecast_def
      upto_rec1 [of 1 10] upto_rec1 [of 2 10] upto_rec1 [of 3 10] upto_rec1 [of 4 10] upto_rec1 [of 5 10]
      upto_rec1 [of 6 10] upto_rec1 [of 7 10] upto_rec1 [of 8 10] upto_rec1 [of 9 10])

text \<open>
  Claim C1 as stated fails: the forecast of ten all-zero days has an average daily
  demand of 0, and with a current stock of 0 and a reorder level of 10 (lead time 7,
  safety days 14) the suggested quantity is 0, not 10.
\<close>

theorem zero_demand_counterexample:
  "forecast_product_sales no_adf no_fit 1 (Some zero_rows) 30 = Some zero_forecast
   \<and> avg_daily_demand zero_forecast = Some 0
   \<and> map_option suggested_quantity (calculate_restock_suggestion (Some zero_forecast) 0 10 7 14) = Some 0
   \<and> map_option suggested_quantity (calculate_restock_suggestion (Some zero_forecast) 0 10 7 14) \<noteq> Some 10"
proof -
  have a: "map_option suggested_quantity (calculate_restock_suggestion (Some zero_forecast) 0 10 7 14) = Some 0"
    by (simp add: calculate_restock_suggestion_def Let_def suggested_zero_demand zero_forecast_def
        dict_get_def)
  have b: "avg_daily_demand zero_forecast = Some 0"
    by (simp add: zero_forecast_def)
  show ?thesis
    unfolding a using zero_series_forecast b by simp
qed

text \<open>
  Claim C3, as the code has it.  With the average daily demand held fixed, the
  variability buffer never decreases when the forecast standard deviation grows from a
  value above 0, and once 1.5 times the standard deviation reaches 0.3 times the average
  it stays at that cap.  A standard deviation of exactly 0 is outside this: it takes the
  default of 0.2 times the average.
\<close>

theorem variability_buffer_mono:
  assumes "0 < s1" and "s1 \<le> s2"
  shows "variability_buffer avg s1 \<le> variability_buffer avg s2
         \<and> (avg * 0.3 \<le> s1 * 1.5 \<longrightarrow>
              variability_buffer avg s1 = avg * 0.3 \<and> variability_buffer avg s2 = avg * 0.3)"
  using assms by (auto simp add: variability_buffer_def min_def)

theorem variability_buffer_mono_witness:
  "(0::real) < 1 \<and> (1::real) \<le> 2 \<and> variability_buffer 10 1 = 3 / 2 \<and> variability_buffer 10 2 = 3
   \<and> (10::real) * 0.3 \<le> 2 * 1.5 \<and> variability_buffer 10 5 = 3"
  using variability_buffer_mono [of 1 2 10] variability_buffer_mono [of 2 5 10]
  by (simp add: variability_buffer_def)

text \<open>
  Claim C3 as stated fails for a pair whose smaller value is 0: at an average of 10 the
  buffer is 2 for a standard deviation of 0 and 0.015 for a standard deviation of 0.01.
\<close>

theorem variability_buffer_counterexample:
  "(0::real) \<le> 0 \<and> (0::real) \<le> 1 / 100
   \<and> variability_buffer 10 0 = 2 \<and> variability_buffer 10 (1 / 100) = 3 / 200
   \<and> variability_buffer 10 (1 / 100) < variability_buffer 10 0"
  by (simp add: variability_buffer_def)

text \<open>
  Claim C9.  The floor at the reorder level comes after the clamp against the overstock
  ceiling: whenever the current stock is below the required stock, the suggested quantity
  is at least the reorder level; and when the reorder level exceeds the ceiling minus the
  current stock, the optimal stock exceeds the ceiling and the overstocking risk is
  'medium'.
\<close>

theorem floor_after_clamp:
  assumes "of_int cs < required_stock (dict_get (avg_daily_demand fr) 0) (dict_get (forecast_std fr) 0) L S"
  shows "\<exists>r. calculate_restock_suggestion (Some fr) cs rl L S = Some r
           \<and> rl \<le> suggested_quantity r
           \<and> optimal_stock r = cs + suggested_quantity r
           \<and> (of_int rl > max_reasonable (dict_get (max_daily_demand fr) (dict_get (avg_daily_demand fr) 0)) rl L S
                            - of_int cs
                \<longrightarrow> of_int (optimal_stock r)
                      > max_reasonable (dict_get (max_daily_demand fr) (dict_get (avg_daily_demand fr) 0)) rl L S
                    \<and> overstocking_risk r = ''medium'')"
proof -
  let ?avg = "dict_get (avg_daily_demand fr) 0"
  let ?s = "suggested ?avg (dict_get (max_daily_demand fr) ?avg) (dict_get (forecast_std fr) 0) cs rl L S"
  have "rl \<le> ?s"
    using assms by (simp add: suggested_def Let_def)
  then have "real_of_int rl \<le> real_of_int ?s"
    by simp
  then show ?thesis
    using \<open>rl \<le> ?s\<close> by (simp add: calculate_restock_suggestion_def Let_def)
qed

theorem floor_after_clamp_witness:
  "real_of_int 75 < required_stock (dict_get (avg_daily_demand capped_forecast) 0)
                     (dict_get (forecast_std capped_forecast) 0) 7 14
   \<and> real_of_int 10 > max_reasonable 1 10 7 14 - real_of_int 75
   \<and> map_option (\<lambda>r. (suggested_quantity r, optimal_stock r, max_reasonable_stock r, overstocking_risk r))
        (calculate_restock_suggestion (Some capped_forecast) 75 10 7 14)
      = Some (10, 85, 81, ''medium'')"
proof -
  have h: "real_of_int 75 < required_stock (dict_get (avg_daily_demand capped_forecast) 0)
                     (dict_get (forecast_std capped_forecast) 0) 7 14"
    by (simp add: capped_forecast_def dict_get_def required_stock_def variability_buffer_def Let_def)
  have m: "real_of_int 10 > max_reasonable 1 10 7 14 - real_of_int 75"
    by (simp add: max_reasonable_def)
  have "map_option (\<lambda>r. (suggested_quantity r, optimal_stock r, max_reasonable_stock r, overstocking_risk r))
        (calculate_restock_suggestion (Some capped_forecast) 75 10 7 14)
      = Some (10, 85, 81, ''medium'')"
    using floor_after_clamp [OF h, of 10]
    by (simp add: calculate_restock_suggestion_def Let_def suggested_def capped_forecast_def dict_get_def
        required_stock_def variability_buffer_def max_reasonable_def days_until_depletion_def
        and_le_def py_int_def)
  with h m show ?thesis by blast
qed

subsection \<open>Risk labels\<close>

lemma overstocking_label:
  assumes "calculate_restock_suggestion (Some fr) cs rl L S = Some r"
  shows "overstocking_risk r =
           (if of_int (cs + suggested_quantity r)
                 \<le> max_reasonable (dict_get (max_daily_demand fr) (dict_get (avg_daily_demand fr) 0)) rl L S
            then ''low'' else ''medium'')"
  using assms by (auto simp add: calculate_restock_suggestion_def Let_def)

lemma understocking_risk_label:
  assumes "calculate_restock_suggestion (Some fr) cs rl L S = Some r"
  shows "understocking_risk r = understocking_label (days_until_stockout r) L S"
  using assms by (auto simp add: calculate_restock_suggestion_def Let_def)

text \<open>For a non-zero number of days the label is the one the comparison gives.\<close>

lemma understocking_label_nonzero:
  assumes "n \<noteq> 0"
  shows "understocking_label (Some n) L S =
           (if n > L + S then ''low'' else if n \<le> L then ''high'' else ''medium'')"
  using assms by (simp add: understocking_label_def and_gt_def and_le_def)

text \<open>No demand, and no stock left, are both falsy and fall through to 'medium'.\<close>

lemma understocking_label_falsy:
  "understocking_label None L S = ''medium''"
  "understocking_label (Some 0) L S = ''medium''"
  by (simp_all add: understocking_label_def and_gt_def and_le_def)

text \<open>Stock that covers the requirement and lasts beyond lead time plus safety days
  (with at least three safety days) needs no order and is at low risk.\<close>

lemma ample_stock:
  assumes "calculate_restock_suggestion (Some fr) cs rl L S = Some r"
    and "of_int cs \<ge> required_stock (dict_get (avg_daily_demand fr) 0) (dict_get (forecast_std fr) 0) L S"
    and "days_until_stockout r = Some n" and "n > L + S" and "3 \<le> S" and "0 \<le> L"
  shows "suggested_quantity r = 0 \<and> understocking_risk r = ''low''"
  using assms
  by (auto simp add: calculate_restock_suggestion_def Let_def suggested_def and_le_def
      understocking_label_def and_gt_def)

text \<open>
  Claim C4 at an input where the code departs from it.  With a demand of one unit a day
  and no stock (reorder level 10, lead time 7, safety days 14) days until depletion is 0,
  which is at most the lead time, and the understocking risk comes out as 'medium', not
  'high': the test \<^verbatim>\<open>days_until_depletion and ...\<close> treats 0 like \<^verbatim>\<open>None\<close>.
\<close>

theorem out_of_stock_label:
  "map_option (\<lambda>r. (days_until_stockout r, suggested_quantity r, understocking_risk r))
     (calculate_restock_suggestion (Some unit_forecast) 0 10 7 14) = Some (Some 0, 26, ''medium'')"
  by (simp add: calculate_restock_suggestion_def Let_def suggested_def unit_forecast_def dict_get_def
        required_stock_def variability_buffer_def max_reasonable_def days_until_depletion_def
        and_le_def and_gt_def py_int_def understocking_label_def)

section \<open>Properties of the model selector\<close>

lemma py_range_cap: "py_range (min (m + 1) 3) = [0..min m 2]"
  by (simp add: py_range_def min_def)

lemma py_range_succ: "py_range (m + 1) = [0..m]"
  by (simp add: py_range_def)

lemma param_combinations_short:
  "n < 12 \<Longrightarrow> param_combinations n d max_p max_q =
      [(0, d, 0), (1, d, 0), (0, d, 1), (1, d, 1), (2, d, 0), (0, d, 2)]"
  by (simp add: param_combinations_def)

lemma param_combinations_long:
  "12 \<le> n \<Longrightarrow> param_combinations n d max_p max_q =
      [(p, d, q). p \<leftarrow> [0..min max_p 2], q \<leftarrow> [0..min max_q 2]]"
  by (simp add: param_combinations_def py_range_cap)

lemma length_diff_series: "length (diff_series ts) = length ts - 1"
  by (induction ts rule: diff_series.induct) simp_all

text \<open>
  Claim C5, as the code has it.  In the per-product selector a series with at least 12
  observations after the differencing decision gets the grid
  \<open>p \<in> [0, min(maxP, 2)]\<close>, \<open>q \<in> [0, min(maxQ, 2)]\<close> with the fixed \<open>d\<close>, \<open>p\<close> outer and
  \<open>q\<close> inner (at most nine candidates, exhaustive only for \<open>maxP, maxQ \<le> 2\<close>); a shorter
  series gets exactly the six listed candidates in that order; a series of fewer than 6
  raw observations gets no search at all.  The exhaustive grid over \<open>[0, maxP]\<close> and
  \<open>[0, maxQ]\<close> is the one of the batch selector, which returns no model below 12
  observations counted before differencing.
\<close>

theorem candidate_sets:
  "(n < 12 \<longrightarrow> param_combinations n d max_p max_q =
        [(0, d, 0), (1, d, 0), (0, d, 1), (1, d, 1), (2, d, 0), (0, d, 2)])
   \<and> (12 \<le> n \<longrightarrow> param_combinations n d max_p max_q =
          [(p, d, q). p \<leftarrow> [0..min max_p 2], q \<leftarrow> [0..min max_q 2]]
        \<and> set (param_combinations n d max_p max_q) =
          {(p, d', q). d' = d \<and> 0 \<le> p \<and> p \<le> min max_p 2 \<and> 0 \<le> q \<and> q \<le> min max_q 2})
   \<and> (length ts < 6 \<longrightarrow> fit_arima_model adf fit ts max_p max_d max_q = (None, None, None))
   \<and> param_grid d max_p max_q = [(p, d, q). p \<leftarrow> [0..max_p], q \<leftarrow> [0..max_q]]
   \<and> set (param_grid d max_p max_q) =
          {(p, d', q). d' = d \<and> 0 \<le> p \<and> p \<le> max_p \<and> 0 \<le> q \<and> q \<le> max_q}
   \<and> (length ts < 12 \<longrightarrow> fit_arima_model_batch adf fit ts max_p max_d max_q = (None, None))"
  by (auto simp add: param_combinations_def param_grid_def py_range_cap py_range_succ
      fit_arima_model_def fit_arima_model_batch_def)

theorem candidate_sets_witness:
  "param_combinations 11 1 3 3 = [(0, 1, 0), (1, 1, 0), (0, 1, 1), (1, 1, 1), (2, 1, 0), (0, 1, 2)]
   \<and> param_combinations 12 0 3 3 =
       [(0, 0, 0), (0, 0, 1), (0, 0, 2), (1, 0, 0), (1, 0, 1), (1, 0, 2), (2, 0, 0), (2, 0, 1), (2, 0, 2)]
   \<and> fit_arima_model no_adf no_fit [1, 2, 3] 3 2 3 = (None, None, None)
   \<and> fit_arima_model_batch no_adf no_fit six_days 3 2 3 = (None, None)"
  using candidate_sets [of 11 1 3 3 "[1, 2, 3]" no_adf no_fit 2]
    candidate_sets [of 12 0 3 3 six_days no_adf no_fit 2]
  by (simp add: upto_rec1 [of 0 2] upto_rec1 [of 1 2] six_days_def)

text \<open>
  Claim C5 as stated fails: for a series of 12 points and the default \<open>maxP = maxQ = 3\<close>
  the per-product selector enumerates nine candidates, and \<open>(3, 0, 3)\<close> of the exhaustive
  grid is not among them.
\<close>

theorem candidate_sets_counterexample:
  "(3, 0, 3) \<notin> set (param_combinations 12 0 3 3) \<and> length (param_combinations 12 0 3 3) = 9"
  by (simp add: param_combinations_def py_range_def upto_rec1 [of 0 2] upto_rec1 [of 1 2])

subsection \<open>The search loop\<close>

lemma arima_search_snoc:
  "arima_search fit ts (cs @ [c]) = try_candidate fit ts (arima_search fit ts cs) c"
  by (simp add: arima_search_def)

lemma arima_search_Nil: "arima_search fit ts [] = (None, None, None)"
  by (simp add: arima_search_def)

lemma best_at_keep:
  assumes "best_at fit ts cs i m"
    and "fit ts c = None \<or> (\<exists>m'. fit ts c = Some m' \<and> aic m \<le> aic m')"
  shows "best_at fit ts (cs @ [c]) i m"
  using assms unfolding best_at_def
  by (auto simp add: nth_append less_Suc_eq)

lemma best_at_new:
  assumes "fit ts c = Some m"
    and "\<forall>j<length cs. \<forall>m'. fit ts (cs ! j) = Some m' \<longrightarrow> aic m < aic m'"
  shows "best_at fit ts (cs @ [c]) (length cs) m"
  using assms unfolding best_at_def
  by (auto simp add: nth_append less_Suc_eq)

text \<open>The loop invariant: either nothing has fitted so far and the state is still the
  initial one, or the state holds the first candidate of minimal AIC among those that
  fitted.\<close>

lemma arima_search_inv:
  "(arima_search fit ts cs = (None, None, None) \<and> (\<forall>c\<in>set cs. fit ts c = None)) \<or>
   (\<exists>i m. arima_search fit ts cs = (Some (aic m), Some m, Some (cs ! i)) \<and> best_at fit ts cs i m)"
proof (induction cs rule: rev_induct)
  case Nil
  show ?case by (simp add: arima_search_Nil)
next
  case (snoc c cs)
  show ?case
  proof (cases "fit ts c")
    case None
    from snoc show ?thesis
    proof
      assume "arima_search fit ts cs = (None, None, None) \<and> (\<forall>c\<in>set cs. fit ts c = None)"
      then show ?thesis using None by (simp add: arima_search_snoc try_candidate_def)
    next
      assume "\<exists>i m. arima_search fit ts cs = (Some (aic m), Some m, Some (cs ! i)) \<and> best_at fit ts cs i m"
      then obtain i m where s: "arima_search fit ts cs = (Some (aic m), Some m, Some (cs ! i))"
        and b: "best_at fit ts cs i m" by blast
      have "best_at fit ts (cs @ [c]) i m" using b None by (simp add: best_at_keep)
      moreover have "arima_search fit ts (cs @ [c]) = (Some (aic m), Some m, Some ((cs @ [c]) ! i))"
        using s None b by (simp add: arima_search_snoc try_candidate_def best_at_def nth_append)
      ultimately show ?thesis by blast
    qed
  next
    case (Some m')
    from snoc show ?thesis
    proof
      assume a: "arima_search fit ts cs = (None, None, None) \<and> (\<forall>c\<in>set cs. fit ts c = None)"
      then have "arima_search fit ts (cs @ [c]) = (Some (aic m'), Some m', Some ((cs @ [c]) ! length cs))"
        using Some by (simp add: arima_search_snoc try_candidate_def)
      moreover have "best_at fit ts (cs @ [c]) (length cs) m'"
        using a Some by (intro best_at_new) auto
      ultimately show ?thesis by blast
    next
      assume "\<exists>i m. arima_search fit ts cs = (Some (aic m), Some m, Some (cs ! i)) \<and> best_at fit ts cs i m"
      then obtain i m where s: "arima_search fit ts cs = (Some (aic m), Some m, Some (cs ! i))"
        and b: "best_at fit ts cs i m" by blast
      show ?thesis
      proof (cases "aic m' < aic m")
        case True
        then have "arima_search fit ts (cs @ [c]) = (Some (aic m'), Some m', Some ((cs @ [c]) ! length cs))"
          using s Some by (simp add: arima_search_snoc try_candidate_def)
        moreover have "best_at fit ts (cs @ [c]) (length cs) m'"
          using b Some True by (intro best_at_new) (auto simp add: best_at_def)
        ultimately show ?thesis by blast
      next
        case False
        then have "arima_search fit ts (cs @ [c]) = (Some (aic m), Some m, Some ((cs @ [c]) ! i))"
          using s Some b by (simp add: arima_search_snoc try_candidate_def best_at_def nth_append)
        moreover have "best_at fit ts (cs @ [c]) i m"
          using b Some False by (intro best_at_keep) auto
        ultimately show ?thesis by blast
      qed
    qed
  qed
qed

text \<open>
  Claim C7, as the code has it.  The selector returns the candidate of minimal AIC among
  those whose fit succeeds, a tie going to the candidate found first in the order in which
  the candidate list is run through; a candidate whose fit raises is skipped; and no model
  is returned exactly when every candidate failed.  The order of the list is \<open>p\<close> ascending
  outer, \<open>q\<close> ascending inner for the grid of a series of at least 12 points, and the order
  \<open>(0,d,0), (1,d,0), (0,d,1), (1,d,1), (2,d,0), (0,d,2)\<close> for a shorter series.
\<close>

theorem fit_arima_model_selects:
  assumes "6 \<le> length ts"
    and "differencing_decision adf ts = (ts1, d)"
    and "fit_arima_model adf fit ts max_p max_d max_q = (best_model, best_params, original_ts)"
  shows "(best_model = None \<longleftrightarrow> (\<forall>c\<in>set (param_combinations (length ts1) d max_p max_q). fit ts1 c = None))
       \<and> (best_model = None \<longrightarrow> best_params = None)
       \<and> (\<forall>m. best_model = Some m \<longrightarrow>
             (\<exists>i. best_params = Some (param_combinations (length ts1) d max_p max_q ! i)
                  \<and> best_at fit ts1 (param_combinations (length ts1) d max_p max_q) i m))
       \<and> (length ts1 < 12 \<longrightarrow> param_combinations (length ts1) d max_p max_q =
             [(0, d, 0), (1, d, 0), (0, d, 1), (1, d, 1), (2, d, 0), (0, d, 2)])
       \<and> (12 \<le> length ts1 \<longrightarrow> param_combinations (length ts1) d max_p max_q =
             [(p, d, q). p \<leftarrow> [0..min max_p 2], q \<leftarrow> [0..min max_q 2]])"
proof -
  let ?cs = "param_combinations (length ts1) d max_p max_q"
  obtain ba where s: "arima_search fit ts1 ?cs = (ba, best_model, best_params)"
    using assms by (auto simp add: fit_arima_model_def split: prod.splits)
  have order: "(length ts1 < 12 \<longrightarrow> ?cs = [(0, d, 0), (1, d, 0), (0, d, 1), (1, d, 1), (2, d, 0), (0, d, 2)])
       \<and> (12 \<le> length ts1 \<longrightarrow> ?cs = [(p, d, q). p \<leftarrow> [0..min max_p 2], q \<leftarrow> [0..min max_q 2]])"
    using param_combinations_short [of "length ts1" d max_p max_q]
      param_combinations_long [of "length ts1" d max_p max_q] by blast
  from arima_search_inv [of fit ts1 ?cs]
  have "(best_model = None \<longleftrightarrow> (\<forall>c\<in>set ?cs. fit ts1 c = None))
       \<and> (best_model = None \<longrightarrow> best_params = None)
       \<and> (\<forall>m. best_model = Some m \<longrightarrow> (\<exists>i. best_params = Some (?cs ! i) \<and> best_at fit ts1 ?cs i m))"
  proof
    assume "arima_search fit ts1 ?cs = (None, None, None) \<and> (\<forall>c\<in>set ?cs. fit ts1 c = None)"
    with s show ?thesis by simp
  next
    assume "\<exists>i m. arima_search fit ts1 ?cs = (Some (aic m), Some m, Some (?cs ! i)) \<and> best_at fit ts1 ?cs i m"
    then obtain i m where r: "arima_search fit ts1 ?cs = (Some (aic m), Some m, Some (?cs ! i))"
      and b: "best_at fit ts1 ?cs i m" by blast
    from b have "?cs ! i \<in> set ?cs" and "fit ts1 (?cs ! i) = Some m"
      by (simp_all add: best_at_def)
    then have "\<not> (\<forall>c\<in>set ?cs. fit ts1 c = None)" by force
    with s r b show ?thesis by auto
  qed
  with order show ?thesis by blast
qed

lemma six_days_decision: "differencing_decision stationary_adf six_days = (six_days, 0)"
  by (simp add: differencing_decision_def test_stationarity_def stationary_adf_def)

lemma six_days_cands:
  "param_combinations (length six_days) 0 3 3 =
     [(0, 0, 0), (1, 0, 0), (0, 0, 1), (1, 0, 1), (2, 0, 0), (0, 0, 2)]"
  by (simp add: param_combinations_def six_days_def)

lemma sample_run:
  "fit_arima_model stationary_adf sample_fit six_days 3 2 3 =
     (Some (flat_model 4), Some (0, 0, 1), Some six_days)"
  by (simp add: fit_arima_model_def six_days_decision six_days_cands arima_search_def try_candidate_def
      sample_fit_def flat_model_def) (simp add: six_days_def)

theorem fit_arima_model_selects_witness:
  "6 \<le> length six_days
   \<and> differencing_decision stationary_adf six_days = (six_days, 0)
   \<and> fit_arima_model stationary_adf sample_fit six_days 3 2 3
       = (Some (flat_model 4), Some (0, 0, 1), Some six_days)
   \<and> sample_fit six_days (0, 0, 0) = None
   \<and> sample_fit six_days (1, 0, 1) = Some (flat_model 4)
   \<and> param_combinations (length six_days) 0 3 3 ! 2 = (0, 0, 1)"
proof -
  have h1: "6 \<le> length six_days" by (simp add: six_days_def)
  note h2 = six_days_decision
  note h3 = sample_run
  from fit_arima_model_selects [OF h1 h2 h3]
  have "\<exists>i. Some (0, 0, 1) = Some (param_combinations (length six_days) 0 3 3 ! i)"
    by blast
  moreover have "sample_fit six_days (0, 0, 0) = None"
    "sample_fit six_days (1, 0, 1) = Some (flat_model 4)"
    by (simp_all add: sample_fit_def)
  moreover have "param_combinations (length six_days) 0 3 3 ! 2 = (0, 0, 1)"
    by (simp add: six_days_cands)
  ultimately show ?thesis using h1 h2 h3 by blast
qed

text \<open>
  Claim C7 as stated fails for the reduced candidate set, which is not run through in
  \<open>p\<close>-ascending order: when \<open>(1, 0, 0)\<close> and \<open>(0, 0, 1)\<close> tie at the minimal AIC on a
  six-point series, the selector returns \<open>(1, 0, 0)\<close>, although \<open>(0, 0, 1)\<close> has the
  smaller \<open>p\<close>.
\<close>

theorem tie_order_counterexample:
  "fit_arima_model stationary_adf tie_fit six_days 3 2 3
     = (Some (flat_model 5), Some (1, 0, 0), Some six_days)
   \<and> map_option aic (tie_fit six_days (0, 0, 1)) = map_option aic (tie_fit six_days (1, 0, 0))
   \<and> fst (0 :: int, 0 :: int, 1 :: int) < fst (1 :: int, 0 :: int, 0 :: int)"
  by (simp add: fit_arima_model_def six_days_decision six_days_cands arima_search_def try_candidate_def
      tie_fit_def flat_model_def) (simp add: six_days_def)

text \<open>
  Claim C10.  The threshold of 12 observations is tested on the series after
  differencing: a series of exactly 12 observations that is not stationary is differenced
  to 11 observations, \<open>d\<close> is 1, and the search runs over the six candidates of the
  reduced set.
\<close>

theorem threshold_after_differencing:
  assumes "length ts = 12" and "\<not> test_stationarity adf ts"
  shows "differencing_decision adf ts = (diff_series ts, 1)
       \<and> length (diff_series ts) = 11
       \<and> param_combinations (length (diff_series ts)) 1 max_p max_q =
           [(0, 1, 0), (1, 1, 0), (0, 1, 1), (1, 1, 1), (2, 1, 0), (0, 1, 2)]
       \<and> fit_arima_model adf fit ts max_p max_d max_q =
           (case arima_search fit (diff_series ts)
                   [(0, 1, 0), (1, 1, 0), (0, 1, 1), (1, 1, 1), (2, 1, 0), (0, 1, 2)] of
              (best_aic, best_model, best_params) \<Rightarrow> (best_model, best_params, Some ts))"
proof -
  have len: "length (diff_series ts) = 11"
    using assms(1) by (simp add: length_diff_series)
  then have "diff_series ts \<noteq> []" by auto
  then have ms: "make_stationary ts = diff_series ts"
    by (simp add: make_stationary_def Let_def)
  have dd: "differencing_decision adf ts = (diff_series ts, 1)"
    using assms(2) len by (simp add: differencing_decision_def ms Let_def)
  have pc: "param_combinations (length (diff_series ts)) 1 max_p max_q =
           [(0, 1, 0), (1, 1, 0), (0, 1, 1), (1, 1, 1), (2, 1, 0), (0, 1, 2)]"
    using len by (simp add: param_combinations_def)
  have "fit_arima_model adf fit ts max_p max_d max_q =
           (case arima_search fit (diff_series ts)
                   [(0, 1, 0), (1, 1, 0), (0, 1, 1), (1, 1, 1), (2, 1, 0), (0, 1, 2)] of
              (best_aic, best_model, best_params) \<Rightarrow> (best_model, best_params, Some ts))"
    using assms(1) by (simp add: fit_arima_model_def dd pc)
  with len dd pc show ?thesis by simp
qed

lemma twelve_nonstationary: "\<not> test_stationarity no_adf twelve_days"
  by (simp add: test_stationarity_def no_adf_def)

theorem threshold_after_differencing_witness:
  "length twelve_days = 12 \<and> \<not> test_stationarity no_adf twelve_days
   \<and> differencing_decision no_adf twelve_days = ([1, 1, 1, 1, 1, 1, 1, 1, 1, 1, 1], 1)
   \<and> fit_arima_model no_adf sample_fit twelve_days 3 2 3
       = (Some (flat_model 4), Some (0, 1, 1), Some twelve_days)"
proof -
  have h1: "length twelve_days = 12" by (simp add: twelve_days_def)
  have d: "diff_series twelve_days = [1, 1, 1, 1, 1, 1, 1, 1, 1, 1, 1]"
    by (simp add: twelve_days_def)
  have "arima_search sample_fit [1, 1, 1, 1, 1, 1, 1, 1, 1, 1, 1]
          [(0, 1, 0), (1, 1, 0), (0, 1, 1), (1, 1, 1), (2, 1, 0), (0, 1, 2)]
        = (Some 4, Some (flat_model 4), Some (0, 1, 1))"
    by (simp add: arima_search_def try_candidate_def sample_fit_def flat_model_def)
  with threshold_after_differencing [OF h1 twelve_nonstationary, of 3 3 sample_fit 2]
  show ?thesis using h1 twelve_nonstationary by (simp add: d)
qed

section \<open>Properties of the forecasters\<close>

text \<open>
  Claim C6.  With fewer than 3 raw observations of the product the forecaster returns
  no result: the value \<open>None\<close>, not an exception.
\<close>

theorem too_few_observations:
  assumes "length (product_rows pid rows) < 3"
  shows "forecast_product_sales adf fit pid (Some rows) days_ahead = None"
  using assms by (simp add: forecast_product_sales_def Let_def)

theorem too_few_observations_witness:
  "length (product_rows 1 two_rows) < 3
   \<and> forecast_product_sales no_adf no_fit 1 (Some two_rows) 30 = None"
  using too_few_observations [of 1 two_rows no_adf no_fit 30]
  by (simp add: product_rows_def two_rows_def List.map_filter_simps)

subsection \<open>The fallback tiers\<close>

lemma arima_tier_None:
  "arima_tier adf fit ds md n = None \<longleftrightarrow>
     (case fit_arima_model adf fit ds 3 2 3 of
        (None, _, _) \<Rightarrow> True
      | (Some model, _, _) \<Rightarrow> model_forecast model n = None)"
  by (simp add: arima_tier_def Let_def split: prod.splits option.splits)

lemma week_product_rows: "product_rows 1 week_rows = [(1, 3), (7, 8), (3, 2), (1, 1)]"
  by (simp add: product_rows_def week_rows_def List.map_filter_simps)

lemma week_daily_stats:
  "daily_stats (product_rows 1 week_rows) = Some ([4, 0, 2, 0, 0, 0, 8], 14, 7, 8)"
  by (simp add: week_product_rows daily_stats_def group_daily_def reindex_daily_def Let_def
      upto_rec1 [of 1 7] upto_rec1 [of 2 7] upto_rec1 [of 3 7] upto_rec1 [of 4 7]
      upto_rec1 [of 5 7] upto_rec1 [of 6 7])

lemma returns_product_rows: "product_rows 1 returns_rows = [(1, - 7), (4, 0), (7, 0)]"
  by (simp add: product_rows_def returns_rows_def List.map_filter_simps)

lemma returns_daily_stats:
  "daily_stats (product_rows 1 returns_rows) = Some ([- 7, 0, 0, 0, 0, 0, 0], - 7, 7, 0)"
  by (simp add: returns_product_rows daily_stats_def group_daily_def reindex_daily_def Let_def
      upto_rec1 [of 1 7] upto_rec1 [of 2 7] upto_rec1 [of 3 7] upto_rec1 [of 4 7]
      upto_rec1 [of 5 7] upto_rec1 [of 6 7])

text \<open>
  Claim C8, as the code has it.  When the selector yields no model or the model's
  forecast raises, and the gap-filled series has \<open>N \<ge> 6\<close> observations: for \<open>N \<ge> 7\<close>
  every horizon step is the average of the most recent \<open>min(30, N)\<close> observations,
  clamped below at 0, with method 'weighted\_average' and confidence 70; for \<open>N = 6\<close>
  every step is the average of all observations, clamped below at 0, with method
  'moving\_average' and confidence 68.  The confidence is a constant of the tier.
\<close>

theorem fallback_tiers:
  assumes "3 \<le> length (product_rows pid rows)"
    and "daily_stats (product_rows pid rows) = Some (daily_sales, total_sales, total_days, max_daily)"
    and "6 \<le> length daily_sales"
    and "fst (fit_arima_model adf fit daily_sales 3 2 3) = None
         \<or> (\<exists>model. fst (fit_arima_model adf fit daily_sales 3 2 3) = Some model
                     \<and> model_forecast model days_ahead = None)"
  shows "\<exists>r. forecast_product_sales adf fit pid (Some rows) days_ahead = Some r
           \<and> (if 7 \<le> length daily_sales
               then forecast_demand r =
                      replicate days_ahead (max 0 (mean (tail (min 30 (length daily_sales)) daily_sales)))
                    \<and> forecast_method r = ''weighted_average'' \<and> confidence_score r = 70
               else forecast_demand r = replicate days_ahead (max 0 (mean daily_sales))
                    \<and> forecast_method r = ''moving_average'' \<and> confidence_score r = 68)"
proof -
  have "arima_tier adf fit daily_sales max_daily days_ahead = None"
    using assms(4) by (auto simp add: arima_tier_None split: prod.splits option.splits)
  then show ?thesis
    using assms(1-3) by (simp add: forecast_product_sales_def Let_def fallback_tier_def)
qed

theorem fallback_tiers_witness:
  "3 \<le> length (product_rows 1 week_rows)
   \<and> daily_stats (product_rows 1 week_rows) = Some ([4, 0, 2, 0, 0, 0, 8], 14, 7, 8)
   \<and> fst (fit_arima_model no_adf no_fit [4, 0, 2, 0, 0, 0, 8] 3 2 3) = None
   \<and> map_option (\<lambda>r. (forecast_demand r, forecast_method r, confidence_score r))
        (forecast_product_sales no_adf no_fit 1 (Some week_rows) 30)
      = Some (replicate 30 2, ''weighted_average'', 70)"
proof -
  have h1: "3 \<le> length (product_rows 1 week_rows)"
    by (simp add: week_product_rows)
  have h2: "daily_stats (product_rows 1 week_rows) = Some ([4, 0, 2, 0, 0, 0, 8], 14, 7, 8)"
    by (rule week_daily_stats)
  have h3: "6 \<le> length [4, 0, 2, 0, 0, 0, 8 :: real]"
    by simp
  have h4: "fst (fit_arima_model no_adf no_fit [4, 0, 2, 0, 0, 0, 8] 3 2 3) = None"
    by (rule no_fit_model)
  from fallback_tiers [OF h1 h2 h3 disjI1 [OF h4], of 30]
  have "map_option (\<lambda>r. (forecast_demand r, forecast_method r, confidence_score r))
          (forecast_product_sales no_adf no_fit 1 (Some week_rows) 30)
        = Some (replicate 30 2, ''weighted_average'', 70)"
    by (auto simp add: mean_def tail_def)
  with h1 h2 h4 show ?thesis by blast
qed

text \<open>
  Claim C8 as stated fails where the average is negative: for a week that opens with a
  return of 7 units and has no other sale, the selector yields no model, the average of
  the 7 observations is \<open>-1\<close>, and every step of the forecast is 0.
\<close>

theorem fallback_clamp_counterexample:
  "daily_stats (product_rows 1 returns_rows) = Some ([- 7, 0, 0, 0, 0, 0, 0], - 7, 7, 0)
   \<and> fst (fit_arima_model no_adf no_fit [- 7, 0, 0, 0, 0, 0, 0] 3 2 3) = None
   \<and> mean (tail (min 30 7) [- 7, 0, 0, 0, 0, 0, 0]) = - 1
   \<and> map_option forecast_demand (forecast_product_sales no_adf no_fit 1 (Some returns_rows) 30)
      = Some (replicate 30 0)"
proof -
  have h2: "daily_stats (product_rows 1 returns_rows) = Some ([- 7, 0, 0, 0, 0, 0, 0], - 7, 7, 0)"
    by (rule returns_daily_stats)
  have h4: "fst (fit_arima_model no_adf no_fit [- 7, 0, 0, 0, 0, 0, 0] 3 2 3) = None"
    by (rule no_fit_model)
  have h5: "mean (tail (min 30 7) [- 7, 0, 0, 0, 0, 0, 0]) = - 1"
    by (simp add: mean_def tail_def)
  have "map_option forecast_demand (forecast_product_sales no_adf no_fit 1 (Some returns_rows) 30)
        = Some (replicate 30 0)"
    using h2 by (simp add: forecast_product_sales_def returns_product_rows no_fit_arima_tier
        fallback_tier_def mean_def tail_def)
  with h2 h4 h5 show ?thesis by blast
qed

subsection \<open>Non-negative forecasts\<close>

lemma arima_tier_nonneg:
  "arima_tier adf fit ds md n = Some r \<Longrightarrow> \<forall>v\<in>set (forecast_demand r). 0 \<le> v"
  by (auto simp add: arima_tier_def Let_def split: prod.splits option.splits)

lemma fallback_tier_nonneg: "\<forall>v\<in>set (forecast_demand (fallback_tier ds md n)). 0 \<le> v"
  by (simp add: fallback_tier_def)

lemma intelligent_tier_nonneg:
  "\<forall>v\<in>set (forecast_demand (intelligent_tier ds t tt td md n)). 0 \<le> v"
  by (simp add: intelligent_tier_def Let_def)

text \<open>The per-product forecaster clamps in all four of its tiers.\<close>

lemma forecast_product_sales_nonneg:
  assumes "forecast_product_sales adf fit pid df days_ahead = Some r"
  shows "\<forall>v\<in>set (forecast_demand r). 0 \<le> v"
  using assms arima_tier_nonneg fallback_tier_nonneg intelligent_tier_nonneg
  by (fastforce simp add: forecast_product_sales_def Let_def split: option.splits if_splits prod.splits)

text \<open>The monthly forecaster clamps its ARIMA tier.\<close>

lemma forecast_product_arima_nonneg:
  assumes "forecast_product adf fit monthly_sales months_ahead = Some r"
    and "monthly_method r = ''ARIMA''"
  shows "\<forall>v\<in>set (forecast r). 0 \<le> v"
  using assms
  by (auto simp add: forecast_product_def split: if_splits prod.splits option.splits)

text \<open>
  Claim C2 at an input where the code departs from it.  The monthly forecaster does not
  clamp its fallback tier: for six months that each total \<open>-1\<close> (fewer than 12, so no
  model is fitted) the 'moving\_average' forecast is \<open>-1\<close> at every step.
\<close>

theorem monthly_fallback_unclamped:
  "map_option (\<lambda>r. (forecast r, monthly_method r))
     (forecast_product adf fit [- 1, - 1, - 1, - 1, - 1, - 1] 12)
   = Some (replicate 12 (- 1), ''moving_average'')"
  by (simp add: forecast_product_def fit_arima_model_batch_def mean_def)

end
